theory Spec2Isabelle
  imports Complex_Main
begin

section \<open>The HoroPCA experiment notebooks\<close>

text \<open>
  The repository's two notebooks, \<^verbatim>\<open>main2.ipynb\<close> (the function \<^verbatim>\<open>run\<close> holding the
  whole pipeline) and \<^verbatim>\<open>main.ipynb\<close> (the same pipeline as a sequence of cells, followed
  by a shorter \<^verbatim>\<open>run\<close>), are orchestration code over the packages \<^verbatim>\<open>geom\<close>,
  \<^verbatim>\<open>learning\<close> and \<^verbatim>\<open>utils\<close>, whose sources are not part of the notebooks. The
  functions of these packages are therefore parameters of the model (the record \<open>env\<close>);
  what is embedded is the notebooks' own control flow and data flow:
  \<^item> every call into a package appends an event to a trace, so that the order of the
    stages and the arguments of every call can be stated;
  \<^item> an exception raised by the notebook itself (\<^verbatim>\<open>assert\<close>, tuple unpacking, indexing,
    reading an unbound local variable) is an \<open>Inl\<close> result that stops the run;
  \<^item> the state of the random number generator, which the constructors and the
    \<^verbatim>\<open>fit\<close> methods of the PCA classes read and advance, is threaded explicitly;
  \<^item> Python floats are written as the reals their literals denote, numpy arrays and
    torch tensors are one type \<open>'t\<close>, and the conversions between them
    (\<^verbatim>\<open>torch.from_numpy\<close>, \<^verbatim>\<open>.detach().cpu().numpy()\<close>) are the identity;
  \<^item> \<^verbatim>\<open>logging.info\<close> calls only format values that are already computed and are left
    out;
  \<^item> \<^verbatim>\<open>assert\<close> statements are executed (the interpreter does not run with \<^verbatim>\<open>-O\<close>), and a
    library function returns a value: an exception raised inside a package is not modelled.
\<close>

subsection \<open>Values, errors and events\<close>

datatype error = AssertionError | ValueError | IndexError | UnboundLocalError

datatype pca_class = EucPCA | TangentPCA | PGA | BSA | HoroPCA

text \<open>An item of a tuple returned by library code: a tensor, a bool or an int.\<close>

datatype 't pyobj = Tensor 't | PyBool bool | PyInt int

text \<open>The local variable \<^verbatim>\<open>embeddings\<close> holds a dict at first and an array after a PCA run.\<close>

datatype 't emb = EmbDict "string \<rightharpoonup> 't" | EmbArray 't

text \<open>The parameters of \<^verbatim>\<open>run\<close> (and the global variables of \<^verbatim>\<open>main.ipynb\<close>'s third cell).\<close>

record run_args =
  dataset :: string
  model_type :: string
  metrics_final :: "string list"
  dim' :: int
  n_components :: int
  n_runs :: int
  use_sarkar :: bool
  sarkar_scale :: real
  lr :: real

text \<open>The dict \<^verbatim>\<open>config\<close> that \<^verbatim>\<open>run\<close> of \<^verbatim>\<open>main2.ipynb\<close> builds and returns.\<close>

record config =
  cfg_metrics_final :: "string list"
  cfg_dim :: int
  cfg_n_components :: int
  cfg_n_runs :: int
  cfg_use_sarkar :: bool
  cfg_sarkar_scale :: real
  cfg_lr :: real

text \<open>An entry of the dict \<^verbatim>\<open>pca_models\<close>: the keys \<^verbatim>\<open>'class'\<close>, \<^verbatim>\<open>'optim'\<close>,
  \<^verbatim>\<open>'iterative'\<close> and \<^verbatim>\<open>"n_runs"\<close>.\<close>

record model_params =
  mp_class :: pca_class
  mp_optim :: bool
  mp_iterative :: bool
  mp_n_runs :: int

text \<open>
  The functions of the packages the notebooks import. \<open>'g\<close> is a networkx graph, \<open>'t\<close> a
  tensor or array, \<open>'m\<close> a metrics dict, \<open>'mdl\<close> a PCA model object, \<open>'s\<close> the state of
  the random number generator. \<open>frechet_mean lr eps max_steps z\<close> is
  \<^verbatim>\<open>Frechet(lr, eps, max_steps).mean(z, return_converged=True)\<close> and gives the returned
  tuple as the list of its items; \<open>new_model\<close> is the constructor of a PCA class.
\<close>

record ('g, 't, 'm, 'mdl, 's) env =
  load_graph :: "string \<Rightarrow> 'g"
  number_of_nodes :: "'g \<Rightarrow> int"
  floyd_warshall_numpy :: "'g \<Rightarrow> int list \<Rightarrow> 't"
  pick_root :: "'g \<Rightarrow> int"
  sarkar :: "'g \<Rightarrow> real \<Rightarrow> int \<Rightarrow> int \<Rightarrow> 't"
  load_embeddings :: "string \<Rightarrow> int \<Rightarrow> 't"
  pairwise_distance :: "'t \<Rightarrow> 't"
  div_scalar :: "'t \<Rightarrow> real \<Rightarrow> 't"
  avg_distortion_measures :: "'t \<Rightarrow> 't \<Rightarrow> real list"
  frechet_mean :: "real \<Rightarrow> real \<Rightarrow> int \<Rightarrow> 't \<Rightarrow> 't pyobj list"
  reflect_at_zero :: "'t \<Rightarrow> 't pyobj \<Rightarrow> 't"
  new_model :: "pca_class \<Rightarrow> int \<Rightarrow> int \<Rightarrow> real \<Rightarrow> int \<Rightarrow> 's \<Rightarrow> 'mdl \<times> 's"
  fit_optim :: "'mdl \<Rightarrow> 't \<Rightarrow> bool \<Rightarrow> 's \<Rightarrow> 'mdl \<times> 's"
  fit_spectral :: "'mdl \<Rightarrow> 't \<Rightarrow> 's \<Rightarrow> 'mdl \<times> 's"
  model_compute_metrics :: "'mdl \<Rightarrow> 't \<Rightarrow> 'm"
  map_to_ball :: "'mdl \<Rightarrow> 't \<Rightarrow> 't"
  aggregate_metrics :: "'m list \<Rightarrow> 'm"
  from_poincare :: "'t \<Rightarrow> 't"
  unsqueeze :: "'t \<Rightarrow> int \<Rightarrow> 't"
  hyperboloid_distance :: "'t \<Rightarrow> 't \<Rightarrow> 't"
  mds :: "'t \<Rightarrow> int \<Rightarrow> 't"
  to_poincare :: "'t \<Rightarrow> 't"
  compute_metrics :: "'t \<Rightarrow> 't \<Rightarrow> 'm"
  format_metrics :: "'m \<Rightarrow> string list \<Rightarrow> string list"

text \<open>One event per call into a package, with the arguments the call receives.\<close>

datatype 't event =
    EvLoadGraph string
  | EvFloydWarshall "int list"
  | EvPickRoot
  | EvSarkar real int int
  | EvLoadEmbeddings string int
  | EvPairwiseDistance 't
  | EvDistortion 't 't
  | EvFrechetMean real real int 't
  | EvReflectAtZero 't "'t pyobj"
  | EvConstruct pca_class int int real int
  | EvFit pca_class 't bool bool
  | EvModelMetrics pca_class 't
  | EvMapToBall pca_class 't
  | EvAggregate nat
  | EvFromPoincare 't
  | EvHyperboloidDistance 't 't
  | EvMDS 't int
  | EvToPoincare 't
  | EvComputeMetrics 't 't
  | EvFormatMetrics "string list"

record ('t, 's) state =
  rng :: 's
  trace :: "'t event list"

type_synonym ('a, 't, 's) comp = "('t, 's) state \<Rightarrow> (error + 'a) \<times> ('t, 's) state"

subsection \<open>Sequencing\<close>

definition ret :: "'a \<Rightarrow> ('a, 't, 's) comp" where
  "ret v st = (Inr v, st)"

definition raise :: "error \<Rightarrow> ('a, 't, 's) comp" where
  "raise e st = (Inl e, st)"

text \<open>A call of a pure library function: its event is logged, its value returned.\<close>

definition call :: "'t event \<Rightarrow> 'a \<Rightarrow> ('a, 't, 's) comp" where
  "call e v st = (Inr v, st\<lparr>trace := trace st @ [e]\<rparr>)"

text \<open>A call that reads and advances the random number generator.\<close>

definition call_rng :: "'t event \<Rightarrow> ('s \<Rightarrow> 'a \<times> 's) \<Rightarrow> ('a, 't, 's) comp" where
  "call_rng e f st =
     (case f (rng st) of (v, s') \<Rightarrow> (Inr v, st\<lparr>rng := s', trace := trace st @ [e]\<rparr>))"

text \<open>Statement sequencing: an exception skips everything after it.\<close>

definition seq :: "('a, 't, 's) comp \<Rightarrow> ('a \<Rightarrow> ('b, 't, 's) comp) \<Rightarrow> ('b, 't, 's) comp" where
  "seq m f st = (case m st of (Inl e, st') \<Rightarrow> (Inl e, st') | (Inr v, st') \<Rightarrow> f v st')"

text \<open>\<^verbatim>\<open>for _ in range(n): body\<close>, the loop's variables passed from one iteration to the next.\<close>

primrec for_range :: "nat \<Rightarrow> ('b \<Rightarrow> ('b, 't, 's) comp) \<Rightarrow> 'b \<Rightarrow> ('b, 't, 's) comp" where
  "for_range 0 body loc = ret loc"
| "for_range (Suc k) body loc = seq (body loc) (for_range k body)"

text \<open>\<^verbatim>\<open>xs[0]\<close> raises IndexError on an empty sequence.\<close>

definition item0 :: "'a list \<Rightarrow> ('a, 't, 's) comp" where
  "item0 xs = (case xs of [] \<Rightarrow> raise IndexError | x # _ \<Rightarrow> ret x)"

text \<open>\<^verbatim>\<open>a, b = xs\<close> raises ValueError unless the sequence has exactly two items.\<close>

definition unpack2 :: "'a list \<Rightarrow> ('a \<times> 'a, 't, 's) comp" where
  "unpack2 xs = (case xs of [a, b] \<Rightarrow> ret (a, b) | _ \<Rightarrow> raise ValueError)"

text \<open>\<^verbatim>\<open>np.arange(n)\<close>: the integers from 0 below n.\<close>

definition arange :: "int \<Rightarrow> int list" where
  "arange n = [0..n - 1]"

subsection \<open>\<^verbatim>\<open>main2.ipynb\<close>: loading and embedding\<close>

definition load_graph_data ::
  "('g, 't, 'm, 'mdl, 's) env \<Rightarrow> string \<Rightarrow> ('g \<times> 't, 't, 's) comp" where
  "load_graph_data env ds =
     seq (call (EvLoadGraph ds) (load_graph env ds)) (\<lambda>graph.
     let n_nodes = number_of_nodes env graph;
         nodelist = arange n_nodes
     in seq (call (EvFloydWarshall nodelist) (floyd_warshall_numpy env graph nodelist))
          (\<lambda>graph_dist. ret (graph, graph_dist)))"

definition get_hyperbolic_embeddings ::
  "('g, 't, 'm, 'mdl, 's) env \<Rightarrow> 'g \<Rightarrow> string \<Rightarrow> int \<Rightarrow> bool \<Rightarrow> real \<Rightarrow> ('t \<times> 't, 't, 's) comp" where
  "get_hyperbolic_embeddings env graph ds d use_sk scale =
     (if use_sk then
        seq (call EvPickRoot (pick_root env graph)) (\<lambda>root.
        seq (call (EvSarkar scale root d) (sarkar env graph scale root d)) (\<lambda>z.
        seq (call (EvPairwiseDistance z) (pairwise_distance env z)) (\<lambda>pd.
        ret (z, div_scalar env pd scale))))
      else if d \<notin> set [2, 10, 50] then raise AssertionError
      else
        seq (call (EvLoadEmbeddings ds d) (load_embeddings env ds d)) (\<lambda>z.
        seq (call (EvPairwiseDistance z) (pairwise_distance env z)) (\<lambda>z_dist.
        ret (z, z_dist))))"

subsection \<open>Distortion and centering\<close>

text \<open>\<^verbatim>\<open>distortion = avg_distortion_measures(graph_dist, z_dist)[0]\<close>\<close>

definition compute_distortion ::
  "('g, 't, 'm, 'mdl, 's) env \<Rightarrow> 't \<Rightarrow> 't \<Rightarrow> (real, 't, 's) comp" where
  "compute_distortion env graph_dist z_dist =
     seq (call (EvDistortion graph_dist z_dist) (avg_distortion_measures env graph_dist z_dist))
       item0"

text \<open>
  \<^verbatim>\<open>frechet = Frechet(lr=1e-2, eps=1e-5, max_steps=5000)\<close>
  \<^verbatim>\<open>mu_ref, has_converged = frechet.mean(z, return_converged=True)\<close>
  \<^verbatim>\<open>x = poincare.reflect_at_zero(z, mu_ref)\<close>
  The flag \<^verbatim>\<open>has_converged\<close> is formatted into a log line and not read again.
\<close>

definition center_data :: "('g, 't, 'm, 'mdl, 's) env \<Rightarrow> 't \<Rightarrow> ('t, 't, 's) comp" where
  "center_data env z =
     seq (call (EvFrechetMean (1 / 100) (1 / 100000) 5000 z)
            (frechet_mean env (1 / 100) (1 / 100000) 5000 z)) (\<lambda>r.
     seq (unpack2 r) (\<lambda>(mu_ref, has_converged).
     call (EvReflectAtZero z mu_ref) (reflect_at_zero env z mu_ref)))"

subsection \<open>The PCA models\<close>

definition pca_models :: "int \<Rightarrow> (string \<times> model_params) list" where
  "pca_models n =
     [(''pca'', \<lparr>mp_class = EucPCA, mp_optim = False, mp_iterative = False, mp_n_runs = 1\<rparr>),
      (''tpca'', \<lparr>mp_class = TangentPCA, mp_optim = False, mp_iterative = False, mp_n_runs = 1\<rparr>),
      (''pga'', \<lparr>mp_class = PGA, mp_optim = True, mp_iterative = True, mp_n_runs = n\<rparr>),
      (''bsa'', \<lparr>mp_class = BSA, mp_optim = True, mp_iterative = False, mp_n_runs = n\<rparr>),
      (''horopca'', \<lparr>mp_class = HoroPCA, mp_optim = True, mp_iterative = False, mp_n_runs = n\<rparr>)]"

text \<open>
  \<^verbatim>\<open>PCA.fit\<close>, as the traceback printed in both notebooks shows it
  (\<^verbatim>\<open>learning/pca.py\<close>, lines 166 to 169):
  \<^verbatim>\<open>if optim: self.fit_optim(x, iterative)\<close>
  \<^verbatim>\<open>else: self.fit_spectral(x)\<close>
\<close>

definition fit ::
  "('g, 't, 'm, 'mdl, 's) env \<Rightarrow> pca_class \<Rightarrow> 'mdl \<Rightarrow> 't \<Rightarrow> bool \<Rightarrow> bool \<Rightarrow> ('mdl, 't, 's) comp" where
  "fit env c model x iter opt =
     (if opt then call_rng (EvFit c x iter opt) (fit_optim env model x iter)
      else call_rng (EvFit c x iter opt) (fit_spectral env model x))"

text \<open>
  The body of the loop over the runs. The local variables \<^verbatim>\<open>metrics\<close> and
  \<^verbatim>\<open>embeddings\<close> are the pair \<open>loc\<close>; \<open>None\<close> is a local variable that is not bound yet.
  \<^verbatim>\<open>metrics.append(model.compute_metrics(x))\<close> reads \<^verbatim>\<open>metrics\<close> before it evaluates
  the argument.
\<close>

definition fit_once ::
  "('g, 't, 'm, 'mdl, 's) env \<Rightarrow> model_params \<Rightarrow> run_args \<Rightarrow> 't \<Rightarrow>
   'm list option \<times> 't emb option \<Rightarrow> ('m list option \<times> 't emb option, 't, 's) comp" where
  "fit_once env mp a x loc =
     seq (call_rng (EvConstruct (mp_class mp) (dim' a) (n_components a) (lr a) 500)
            (new_model env (mp_class mp) (dim' a) (n_components a) (lr a) 500)) (\<lambda>model0.
     seq (fit env (mp_class mp) model0 x (mp_iterative mp) (mp_optim mp)) (\<lambda>model.
     case fst loc of
       None \<Rightarrow> raise UnboundLocalError
     | Some ms \<Rightarrow>
         seq (call (EvModelMetrics (mp_class mp) x) (model_compute_metrics env model x)) (\<lambda>m.
         seq (call (EvMapToBall (mp_class mp) x) (map_to_ball env model x)) (\<lambda>e.
         ret (Some (ms @ [m]), Some (EmbArray e))))))"

text \<open>
  The statement \<^verbatim>\<open>if model_type in pca_models.keys(): ... else: ...\<close> of both notebooks'
  \<^verbatim>\<open>run\<close>: the runs of one PCA class and the aggregation of their metrics, or the hMDS
  baseline. It returns the final values of \<^verbatim>\<open>metrics\<close> and \<^verbatim>\<open>embeddings\<close>. Storing the
  key \<^verbatim>\<open>"hMDS"\<close> evaluates the right-hand side first and then reads \<^verbatim>\<open>embeddings\<close>.
\<close>

definition reduce_dimension ::
  "('g, 't, 'm, 'mdl, 's) env \<Rightarrow> 't \<Rightarrow> run_args \<Rightarrow>
   'm list option \<times> 't emb option \<Rightarrow> ('m \<times> 't emb option, 't, 's) comp" where
  "reduce_dimension env x a loc =
     (case map_of (pca_models (n_runs a)) (model_type a) of
        Some mp \<Rightarrow>
          seq (for_range (nat (mp_n_runs mp)) (fit_once env mp a x) loc) (\<lambda>(metrics, embeddings).
          case metrics of
            None \<Rightarrow> raise UnboundLocalError
          | Some ms \<Rightarrow>
              seq (call (EvAggregate (length ms)) (aggregate_metrics env ms)) (\<lambda>m.
              ret (m, embeddings)))
      | None \<Rightarrow>
          seq (call (EvFromPoincare x) (from_poincare env x)) (\<lambda>x_hyperboloid.
          seq (call (EvHyperboloidDistance (unsqueeze env x (- 2)) (unsqueeze env x (- 3)))
                 (hyperboloid_distance env (unsqueeze env x (- 2)) (unsqueeze env x (- 3))))
            (\<lambda>distances.
          seq (call (EvPairwiseDistance x) (pairwise_distance env x)) (\<lambda>D_p.
          seq (call (EvMDS D_p (n_components a)) (mds env D_p (n_components a))) (\<lambda>x_h.
          seq (call (EvToPoincare x_h) (to_poincare env x_h)) (\<lambda>x_proj.
          case snd loc of
            None \<Rightarrow> raise UnboundLocalError
          | Some (EmbArray _) \<Rightarrow> raise IndexError
          | Some (EmbDict d) \<Rightarrow>
              seq (call (EvComputeMetrics x x_proj) (compute_metrics env x x_proj)) (\<lambda>m.
              ret (m, Some (EmbDict (d(''hMDS'' \<mapsto> x_proj)))))))))))"

subsection \<open>\<^verbatim>\<open>run\<close> of \<^verbatim>\<open>main2.ipynb\<close>\<close>

definition config_of :: "run_args \<Rightarrow> config" where
  "config_of a =
     \<lparr>cfg_metrics_final = metrics_final a, cfg_dim = dim' a,
      cfg_n_components = n_components a, cfg_n_runs = n_runs a,
      cfg_use_sarkar = use_sarkar a, cfg_sarkar_scale = sarkar_scale a, cfg_lr = lr a\<rparr>"

text \<open>\<^verbatim>\<open>metrics = []\<close> and \<^verbatim>\<open>embeddings = {}\<close> are bound before the pipeline starts.\<close>

definition run :: "('g, 't, 'm, 'mdl, 's) env \<Rightarrow> run_args \<Rightarrow> ('m \<times> config, 't, 's) comp" where
  "run env a =
     (let config = config_of a;
          metrics = Some [];
          embeddings = Some (EmbDict Map.empty)
      in
        seq (load_graph_data env (dataset a)) (\<lambda>(graph, graph_dist).
        seq (get_hyperbolic_embeddings env graph (dataset a) (dim' a) (use_sarkar a)
               (sarkar_scale a)) (\<lambda>(z, z_dist).
        seq (compute_distortion env graph_dist z_dist) (\<lambda>distortion.
        seq (center_data env z) (\<lambda>x.
        seq (reduce_dimension env x a (metrics, embeddings)) (\<lambda>(metrics, embeddings).
        seq (call (EvFormatMetrics (metrics_final a))
               (format_metrics env metrics (metrics_final a))) (\<lambda>results.
        ret (metrics, config))))))))"

subsection \<open>\<^verbatim>\<open>main.ipynb\<close>\<close>

text \<open>
  The cells from loading the graph to centering, executed in order with the global
  variables \<open>g\<close> of the third cell; the last of them also computes
  \<^verbatim>\<open>dist_orig = poincare.pairwise_distance(x)\<close>. They give the global \<^verbatim>\<open>x\<close>.
\<close>

definition main_cells :: "('g, 't, 'm, 'mdl, 's) env \<Rightarrow> run_args \<Rightarrow> ('t, 't, 's) comp" where
  "main_cells env g =
     seq (load_graph_data env (dataset g)) (\<lambda>(graph, graph_dist).
     seq (get_hyperbolic_embeddings env graph (dataset g) (dim' g) (use_sarkar g)
            (sarkar_scale g)) (\<lambda>(z, z_dist).
     seq (compute_distortion env graph_dist z_dist) (\<lambda>distortion.
     seq (center_data env z) (\<lambda>x.
     seq (call (EvPairwiseDistance x) (pairwise_distance env x)) (\<lambda>dist_orig.
     ret x)))))"

text \<open>
  \<^verbatim>\<open>run\<close> of \<^verbatim>\<open>main.ipynb\<close> reads the global \<^verbatim>\<open>x\<close>. It assigns \<^verbatim>\<open>metrics\<close> and
  \<^verbatim>\<open>embeddings\<close> in its body and declares neither \<^verbatim>\<open>global\<close>, so both are local
  variables of the function, and nothing binds them before the \<^verbatim>\<open>if\<close> statement: the
  module-level \<^verbatim>\<open>metrics = []\<close> of the same cell binds the global of that name.
\<close>

definition main_run :: "('g, 't, 'm, 'mdl, 's) env \<Rightarrow> 't \<Rightarrow> run_args \<Rightarrow> (unit, 't, 's) comp" where
  "main_run env x a =
     seq (reduce_dimension env x a (None, None)) (\<lambda>(metrics, embeddings).
     seq (call (EvFormatMetrics (metrics_final a))
            (format_metrics env metrics (metrics_final a))) (\<lambda>results.
     ret ()))"

text \<open>The notebook run from its first cell to the call of \<^verbatim>\<open>run\<close> in its last.\<close>

definition main_notebook ::
  "('g, 't, 'm, 'mdl, 's) env \<Rightarrow> run_args \<Rightarrow> run_args \<Rightarrow> (unit, 't, 's) comp" where
  "main_notebook env g a = seq (main_cells env g) (\<lambda>x. main_run env x a)"

text \<open>The default arguments of \<^verbatim>\<open>run\<close>, and the third cell of \<^verbatim>\<open>main.ipynb\<close>.\<close>

definition default_args :: run_args where
  "default_args =
     \<lparr>dataset = ''smalltree'', model_type = ''horopca'',
      metrics_final = [''distortion'', ''frechet_var''], dim' = 10, n_components = 2,
      n_runs = 5, use_sarkar = False, sarkar_scale = 7 / 2, lr = 5 / 100\<rparr>"

definition main_globals :: run_args where
  "main_globals = default_args\<lparr>dataset := ''ca-CSphd''\<rparr>"

definition init :: "'s \<Rightarrow> ('t, 's) state" where
  "init s = \<lparr>rng = s, trace = []\<rparr>"

subsection \<open>What the stages compute\<close>

text \<open>
  The values and events of the pipeline written out directly, for comparison with the
  sequenced definitions above: the distance matrix of the graph, the embedding and its
  distance matrix on either path, the model one run fits, and the events of each stage.
\<close>

definition graph_dist_of :: "('g, 't, 'm, 'mdl, 's) env \<Rightarrow> string \<Rightarrow> 't" where
  "graph_dist_of env ds =
     floyd_warshall_numpy env (load_graph env ds)
       (arange (number_of_nodes env (load_graph env ds)))"

definition embedding_of :: "('g, 't, 'm, 'mdl, 's) env \<Rightarrow> run_args \<Rightarrow> 't" where
  "embedding_of env a =
     (if use_sarkar a then
        sarkar env (load_graph env (dataset a)) (sarkar_scale a)
          (pick_root env (load_graph env (dataset a))) (dim' a)
      else load_embeddings env (dataset a) (dim' a))"

definition embedding_dist_of :: "('g, 't, 'm, 'mdl, 's) env \<Rightarrow> run_args \<Rightarrow> 't" where
  "embedding_dist_of env a =
     (if use_sarkar a then
        div_scalar env (pairwise_distance env (embedding_of env a)) (sarkar_scale a)
      else pairwise_distance env (embedding_of env a))"

definition loading_events :: "('g, 't, 'm, 'mdl, 's) env \<Rightarrow> run_args \<Rightarrow> 't event list" where
  "loading_events env a =
     [EvLoadGraph (dataset a),
      EvFloydWarshall (arange (number_of_nodes env (load_graph env (dataset a))))]"

definition embedding_events :: "('g, 't, 'm, 'mdl, 's) env \<Rightarrow> run_args \<Rightarrow> 't event list" where
  "embedding_events env a =
     (if use_sarkar a then
        [EvPickRoot,
         EvSarkar (sarkar_scale a) (pick_root env (load_graph env (dataset a))) (dim' a),
         EvPairwiseDistance (embedding_of env a)]
      else
        [EvLoadEmbeddings (dataset a) (dim' a), EvPairwiseDistance (embedding_of env a)])"

text \<open>One run: the constructor, then \<^verbatim>\<open>fit\<close>; the fitted model and the generator's new state.\<close>

definition fit_model ::
  "('g, 't, 'm, 'mdl, 's) env \<Rightarrow> model_params \<Rightarrow> run_args \<Rightarrow> 't \<Rightarrow> 's \<Rightarrow> 'mdl \<times> 's" where
  "fit_model env mp a x s =
     (let built = new_model env (mp_class mp) (dim' a) (n_components a) (lr a) 500 s
      in if mp_optim mp then fit_optim env (fst built) x (mp_iterative mp) (snd built)
         else fit_spectral env (fst built) x (snd built))"

text \<open>The models of \<open>k\<close> successive runs, each started where the previous one left the generator.\<close>

primrec fitted_models ::
  "('g, 't, 'm, 'mdl, 's) env \<Rightarrow> model_params \<Rightarrow> run_args \<Rightarrow> 't \<Rightarrow> nat \<Rightarrow> 's \<Rightarrow> 'mdl list" where
  "fitted_models env mp a x 0 s = []"
| "fitted_models env mp a x (Suc k) s =
     fst (fit_model env mp a x s) # fitted_models env mp a x k (snd (fit_model env mp a x s))"

primrec rng_after ::
  "('g, 't, 'm, 'mdl, 's) env \<Rightarrow> model_params \<Rightarrow> run_args \<Rightarrow> 't \<Rightarrow> nat \<Rightarrow> 's \<Rightarrow> 's" where
  "rng_after env mp a x 0 s = s"
| "rng_after env mp a x (Suc k) s = rng_after env mp a x k (snd (fit_model env mp a x s))"

definition run_events :: "model_params \<Rightarrow> run_args \<Rightarrow> 't \<Rightarrow> 't event list" where
  "run_events mp a x =
     [EvConstruct (mp_class mp) (dim' a) (n_components a) (lr a) 500,
      EvFit (mp_class mp) x (mp_iterative mp) (mp_optim mp),
      EvModelMetrics (mp_class mp) x,
      EvMapToBall (mp_class mp) x]"

definition hmds_events :: "('g, 't, 'm, 'mdl, 's) env \<Rightarrow> run_args \<Rightarrow> 't \<Rightarrow> 't event list" where
  "hmds_events env a x =
     [EvFromPoincare x,
      EvHyperboloidDistance (unsqueeze env x (- 2)) (unsqueeze env x (- 3)),
      EvPairwiseDistance x,
      EvMDS (pairwise_distance env x) (n_components a),
      EvToPoincare (mds env (pairwise_distance env x) (n_components a)),
      EvComputeMetrics x (to_poincare env (mds env (pairwise_distance env x) (n_components a)))]"

text \<open>
  The events of the last stage: for a key of \<^verbatim>\<open>pca_models\<close> the runs of that entry's one
  class followed by the aggregation, for any other model type the hMDS baseline.
\<close>

definition reduction_events :: "('g, 't, 'm, 'mdl, 's) env \<Rightarrow> run_args \<Rightarrow> 't \<Rightarrow> 't event list" where
  "reduction_events env a x =
     (case map_of (pca_models (n_runs a)) (model_type a) of
        Some mp \<Rightarrow>
          concat (replicate (nat (mp_n_runs mp)) (run_events mp a x))
          @ [EvAggregate (nat (mp_n_runs mp))]
      | None \<Rightarrow> hmds_events env a x)"

text \<open>What the last stage leaves: the final \<^verbatim>\<open>metrics\<close>, \<^verbatim>\<open>embeddings\<close> and generator state.\<close>

definition x_proj_of :: "('g, 't, 'm, 'mdl, 's) env \<Rightarrow> run_args \<Rightarrow> 't \<Rightarrow> 't" where
  "x_proj_of env a x = to_poincare env (mds env (pairwise_distance env x) (n_components a))"

definition final_metrics :: "('g, 't, 'm, 'mdl, 's) env \<Rightarrow> run_args \<Rightarrow> 't \<Rightarrow> 's \<Rightarrow> 'm" where
  "final_metrics env a x s =
     (case map_of (pca_models (n_runs a)) (model_type a) of
        Some mp \<Rightarrow>
          aggregate_metrics env
            (map (\<lambda>m. model_compute_metrics env m x)
               (fitted_models env mp a x (nat (mp_n_runs mp)) s))
      | None \<Rightarrow> compute_metrics env x (x_proj_of env a x))"

definition final_embeddings ::
  "('g, 't, 'm, 'mdl, 's) env \<Rightarrow> run_args \<Rightarrow> 't \<Rightarrow> 's \<Rightarrow> 't emb" where
  "final_embeddings env a x s =
     (case map_of (pca_models (n_runs a)) (model_type a) of
        Some mp \<Rightarrow>
          (if nat (mp_n_runs mp) = 0 then EmbDict Map.empty
           else EmbArray
                  (map_to_ball env (last (fitted_models env mp a x (nat (mp_n_runs mp)) s)) x))
      | None \<Rightarrow> EmbDict [''hMDS'' \<mapsto> x_proj_of env a x])"

definition final_rng :: "('g, 't, 'm, 'mdl, 's) env \<Rightarrow> run_args \<Rightarrow> 't \<Rightarrow> 's \<Rightarrow> 's" where
  "final_rng env a x s =
     (case map_of (pca_models (n_runs a)) (model_type a) of
        Some mp \<Rightarrow> rng_after env mp a x (nat (mp_n_runs mp)) s
      | None \<Rightarrow> s)"

text \<open>Readings of a trace: the classes of the models it fits, in order; the hyperparameters
  of its Fr\'echet estimators; the learning rate and step budget of its model constructors;
  and the trace with the learning rate of the constructors blanked.\<close>

definition fit_class :: "'t event \<Rightarrow> pca_class list" where
  "fit_class e = (case e of EvFit c x i opt \<Rightarrow> [c] | _ \<Rightarrow> [])"

definition fit_classes :: "'t event list \<Rightarrow> pca_class list" where
  "fit_classes tr = concat (map fit_class tr)"

definition frechet_params :: "'t event \<Rightarrow> (real \<times> real \<times> int) list" where
  "frechet_params e = (case e of EvFrechetMean l ep ms z \<Rightarrow> [(l, ep, ms)] | _ \<Rightarrow> [])"

definition construct_params :: "'t event \<Rightarrow> (real \<times> int) list" where
  "construct_params e = (case e of EvConstruct c d k l ms \<Rightarrow> [(l, ms)] | _ \<Rightarrow> [])"

definition forget_lr :: "'t event \<Rightarrow> 't event" where
  "forget_lr e = (case e of EvConstruct c d k l ms \<Rightarrow> EvConstruct c d k 0 ms | _ \<Rightarrow> e)"

definition frechet_calls :: "'t event list \<Rightarrow> (real \<times> real \<times> int) list" where
  "frechet_calls tr = concat (map frechet_params tr)"

definition constructor_calls :: "'t event list \<Rightarrow> (real \<times> int) list" where
  "constructor_calls tr = concat (map construct_params tr)"

subsection \<open>A small concrete environment\<close>

text \<open>
  Concrete stand-ins for the library functions, on which the definitions above can be
  evaluated: a graph is its number of nodes, a tensor an integer, a model an integer, and
  the random number generator a counter that every model constructor and every
  optimisation advances. The estimator reports a mean that has not converged.
\<close>

definition toy_env :: "(nat, int, int, int, nat) env" where
  "toy_env =
     \<lparr>load_graph = (\<lambda>ds. length ds),
      number_of_nodes = (\<lambda>g. int g),
      floyd_warshall_numpy = (\<lambda>g nodelist. int (length nodelist)),
      pick_root = (\<lambda>g. 0),
      sarkar = (\<lambda>g tau root d. 100 + d),
      load_embeddings = (\<lambda>ds d. d),
      pairwise_distance = (\<lambda>z. 2 * z),
      div_scalar = (\<lambda>t r. t),
      avg_distortion_measures = (\<lambda>gd zd. [0, 0]),
      frechet_mean = (\<lambda>l e ms z. [Tensor 1, PyBool False]),
      reflect_at_zero = (\<lambda>z mu. case mu of Tensor m \<Rightarrow> z - m | _ \<Rightarrow> z),
      new_model = (\<lambda>c d k l ms s. (int s, Suc s)),
      fit_optim = (\<lambda>m x it s. (m + x, Suc s)),
      fit_spectral = (\<lambda>m x s. (x, s)),
      model_compute_metrics = (\<lambda>m x. m),
      map_to_ball = (\<lambda>m x. 10 * m),
      aggregate_metrics = (\<lambda>ms. sum_list ms),
      from_poincare = (\<lambda>x. x),
      unsqueeze = (\<lambda>x k. x),
      hyperboloid_distance = (\<lambda>x y. 0),
      mds = (\<lambda>D d. D + d),
      to_poincare = (\<lambda>x. x),
      compute_metrics = (\<lambda>x y. y - x),
      format_metrics = (\<lambda>m names. names)\<rparr>"

section \<open>Properties\<close>

subsection \<open>Sequencing lemmas\<close>

lemma seq_ret [simp]: "seq (ret v) f st = f v st"
  by (simp add: seq_def ret_def)

lemma seq_raise [simp]: "seq (raise e) f st = (Inl e, st)"
  by (simp add: seq_def raise_def)

lemma seq_call [simp]: "seq (call e v) f st = f v (st\<lparr>trace := trace st @ [e]\<rparr>)"
  by (simp add: seq_def call_def)

lemma seq_call_rng [simp]:
  "seq (call_rng e g) f st =
     f (fst (g (rng st))) (st\<lparr>rng := snd (g (rng st)), trace := trace st @ [e]\<rparr>)"
  by (simp add: seq_def call_rng_def split: prod.splits)

lemma seq_assoc: "seq (seq m f) h = seq m (\<lambda>v. seq (f v) h)"
  by (rule ext) (simp add: seq_def split: prod.splits sum.splits)

lemma seq_load_graph_data [simp]:
  "seq (load_graph_data env ds) f st =
     f (load_graph env ds,
        floyd_warshall_numpy env (load_graph env ds)
          (arange (number_of_nodes env (load_graph env ds))))
       (st\<lparr>trace := trace st @
          [EvLoadGraph ds, EvFloydWarshall (arange (number_of_nodes env (load_graph env ds)))]\<rparr>)"
  by (simp add: load_graph_data_def Let_def seq_assoc)

subsection \<open>The dimension check\<close>

text \<open>
  C3. With \<^verbatim>\<open>use_sarkar\<close> false and a dimension other than 2, 10 and 50, both notebooks
  stop with the AssertionError of the \<^verbatim>\<open>assert\<close> statement. At that point the trace holds
  the loading of the graph and its shortest-path matrix and nothing else: no embedding was
  loaded, no distance, distortion or mean computed, no model built, and the random number
  generator is as it was.
\<close>

theorem pretrained_dim_fails_fast:
  assumes "\<not> use_sarkar a" and "dim' a \<notin> {2, 10, 50}"
  shows "run env a (init s) =
           (Inl AssertionError,
            \<lparr>rng = s,
             trace = [EvLoadGraph (dataset a),
                      EvFloydWarshall
                        (arange (number_of_nodes env (load_graph env (dataset a))))]\<rparr>)
         \<and> main_notebook env a b (init s) =
           (Inl AssertionError,
            \<lparr>rng = s,
             trace = [EvLoadGraph (dataset a),
                      EvFloydWarshall
                        (arange (number_of_nodes env (load_graph env (dataset a))))]\<rparr>)"
  using assms
  by (simp add: run_def main_notebook_def main_cells_def Let_def seq_assoc
      get_hyperbolic_embeddings_def init_def)

text \<open>The same at dimension 3 in the concrete environment.\<close>

theorem pretrained_dim_fails_fast_witness:
  "\<not> use_sarkar (default_args\<lparr>dim' := 3\<rparr>) \<and> dim' (default_args\<lparr>dim' := 3\<rparr>) \<notin> {2, 10, 50}
   \<and> run toy_env (default_args\<lparr>dim' := 3\<rparr>) (init 0) =
       (Inl AssertionError,
        \<lparr>rng = 0, trace = [EvLoadGraph ''smalltree'', EvFloydWarshall [0, 1, 2, 3, 4, 5, 6, 7, 8]]\<rparr>)"
proof -
  have h1: "\<not> use_sarkar (default_args\<lparr>dim' := 3\<rparr>)"
    by (simp add: default_args_def)
  have h2: "dim' (default_args\<lparr>dim' := 3\<rparr>) \<notin> {2, 10, 50}"
    by (simp add: default_args_def)
  have ar: "arange 9 = [0, 1, 2, 3, 4, 5, 6, 7, 8]"
    by (simp add: arange_def upto.simps)
  from pretrained_dim_fails_fast [OF h1 h2, of toy_env 0 default_args] h1 h2 ar
  show ?thesis
    by (simp add: default_args_def toy_env_def)
qed

subsection \<open>The stages, one by one\<close>

lemma length_fitted_models [simp]: "length (fitted_models env mp a x k s) = k"
  by (induction k arbitrary: s) simp_all

lemma fitted_models_Nil [simp]: "(fitted_models env mp a x k s = []) = (k = 0)"
  by (cases k) simp_all

lemma fit_once_bound:
  "fit_once env mp a x (Some ms, e) st =
     (Inr (Some (ms @ [model_compute_metrics env (fst (fit_model env mp a x (rng st))) x]),
           Some (EmbArray (map_to_ball env (fst (fit_model env mp a x (rng st))) x))),
      st\<lparr>rng := snd (fit_model env mp a x (rng st)),
         trace := trace st @ run_events mp a x\<rparr>)"
  by (simp add: fit_once_def fit_def seq_assoc fit_model_def run_events_def Let_def ret_def)

lemma fit_once_unbound:
  "fit_once env mp a x (None, e) st =
     (Inl UnboundLocalError,
      st\<lparr>rng := snd (fit_model env mp a x (rng st)),
         trace := trace st @ [EvConstruct (mp_class mp) (dim' a) (n_components a) (lr a) 500,
                              EvFit (mp_class mp) x (mp_iterative mp) (mp_optim mp)]\<rparr>)"
  by (simp add: fit_once_def fit_def seq_assoc fit_model_def Let_def raise_def)

lemma for_range_bound:
  "for_range k (fit_once env mp a x) (Some ms, e) st =
     (Inr (Some (ms @ map (\<lambda>m. model_compute_metrics env m x)
                      (fitted_models env mp a x k (rng st))),
           if k = 0 then e
           else Some (EmbArray (map_to_ball env (last (fitted_models env mp a x k (rng st))) x))),
      st\<lparr>rng := rng_after env mp a x k (rng st),
         trace := trace st @ concat (replicate k (run_events mp a x))\<rparr>)"
proof (induction k arbitrary: ms e st)
  case 0
  show ?case by (simp add: ret_def)
next
  case (Suc k)
  show ?case
    by (simp add: seq_def fit_once_bound Suc)
qed

lemma for_range_unbound:
  "for_range (Suc k) (fit_once env mp a x) (None, e) st =
     (Inl UnboundLocalError,
      st\<lparr>rng := snd (fit_model env mp a x (rng st)),
         trace := trace st @ [EvConstruct (mp_class mp) (dim' a) (n_components a) (lr a) 500,
                              EvFit (mp_class mp) x (mp_iterative mp) (mp_optim mp)]\<rparr>)"
  by (simp add: seq_def fit_once_unbound)

lemma seq_get_hyperbolic_embeddings:
  "seq (get_hyperbolic_embeddings env (load_graph env (dataset a)) (dataset a) (dim' a)
          (use_sarkar a) (sarkar_scale a)) f st =
     (if use_sarkar a \<or> dim' a \<in> {2, 10, 50}
      then f (embedding_of env a, embedding_dist_of env a)
             (st\<lparr>trace := trace st @ embedding_events env a\<rparr>)
      else (Inl AssertionError, st))"
  by (simp add: get_hyperbolic_embeddings_def seq_assoc embedding_of_def embedding_dist_of_def
      embedding_events_def)

lemma seq_compute_distortion:
  "seq (compute_distortion env gd zd) f st =
     (case avg_distortion_measures env gd zd of
        [] \<Rightarrow> (Inl IndexError, st\<lparr>trace := trace st @ [EvDistortion gd zd]\<rparr>)
      | d # ds \<Rightarrow> f d (st\<lparr>trace := trace st @ [EvDistortion gd zd]\<rparr>))"
  by (simp add: compute_distortion_def seq_assoc item0_def split: list.splits)

lemma seq_center_data:
  "seq (center_data env z) f st =
     (case frechet_mean env (1 / 100) (1 / 100000) 5000 z of
        [mu, flag] \<Rightarrow>
          f (reflect_at_zero env z mu)
            (st\<lparr>trace := trace st @
               [EvFrechetMean (1 / 100) (1 / 100000) 5000 z, EvReflectAtZero z mu]\<rparr>)
      | _ \<Rightarrow>
          (Inl ValueError,
           st\<lparr>trace := trace st @ [EvFrechetMean (1 / 100) (1 / 100000) 5000 z]\<rparr>))"
  by (simp add: center_data_def seq_assoc unpack2_def split: list.splits)

lemma seq_reduce_dimension_bound:
  "seq (reduce_dimension env x a (Some [], Some (EmbDict Map.empty))) f st =
     f (final_metrics env a x (rng st), Some (final_embeddings env a x (rng st)))
       (st\<lparr>rng := final_rng env a x (rng st),
          trace := trace st @ reduction_events env a x\<rparr>)"
  by (simp add: reduce_dimension_def seq_assoc final_metrics_def final_embeddings_def
      final_rng_def reduction_events_def hmds_events_def x_proj_of_def
      seq_def [of "for_range _ _ _"] for_range_bound split: option.splits)


subsection \<open>The whole run of \<^verbatim>\<open>main2.ipynb\<close>\<close>

text \<open>
  Every outcome of \<^verbatim>\<open>run\<close>: the failed dimension check, an empty tuple of distortion
  measures, an estimator result that is not a pair, or the complete pipeline.
\<close>

lemma run_eq:
  "run env a (init s) =
     (if \<not> (use_sarkar a \<or> dim' a \<in> {2, 10, 50})
      then (Inl AssertionError, \<lparr>rng = s, trace = loading_events env a\<rparr>)
      else
        (case avg_distortion_measures env (graph_dist_of env (dataset a)) (embedding_dist_of env a) of
           [] \<Rightarrow>
             (Inl IndexError,
              \<lparr>rng = s,
               trace = loading_events env a @ embedding_events env a
                 @ [EvDistortion (graph_dist_of env (dataset a)) (embedding_dist_of env a)]\<rparr>)
         | d # ds \<Rightarrow>
             (case frechet_mean env (1 / 100) (1 / 100000) 5000 (embedding_of env a) of
                [mu, flag] \<Rightarrow>
                  (Inr (final_metrics env a (reflect_at_zero env (embedding_of env a) mu) s,
                        config_of a),
                   \<lparr>rng = final_rng env a (reflect_at_zero env (embedding_of env a) mu) s,
                    trace = loading_events env a @ embedding_events env a
                      @ [EvDistortion (graph_dist_of env (dataset a)) (embedding_dist_of env a),
                         EvFrechetMean (1 / 100) (1 / 100000) 5000 (embedding_of env a),
                         EvReflectAtZero (embedding_of env a) mu]
                      @ reduction_events env a (reflect_at_zero env (embedding_of env a) mu)
                      @ [EvFormatMetrics (metrics_final a)]\<rparr>)
              | _ \<Rightarrow>
                  (Inl ValueError,
                   \<lparr>rng = s,
                    trace = loading_events env a @ embedding_events env a
                      @ [EvDistortion (graph_dist_of env (dataset a)) (embedding_dist_of env a),
                         EvFrechetMean (1 / 100) (1 / 100000) 5000 (embedding_of env a)]\<rparr>))))"
  by (simp add: run_def Let_def seq_get_hyperbolic_embeddings seq_compute_distortion
      seq_center_data seq_reduce_dimension_bound init_def loading_events_def graph_dist_of_def
      ret_def split: list.splits)

lemma fit_classes_append [simp]: "fit_classes (xs @ ys) = fit_classes xs @ fit_classes ys"
  by (simp add: fit_classes_def)

lemma fit_classes_Cons [simp]: "fit_classes (e # es) = fit_class e @ fit_classes es"
  by (simp add: fit_classes_def)

lemma fit_classes_Nil [simp]: "fit_classes [] = []"
  by (simp add: fit_classes_def)

lemma fit_classes_runs:
  "fit_classes (concat (replicate k (run_events mp a x))) = replicate k (mp_class mp)"
  by (induction k) (simp_all add: run_events_def fit_class_def)

lemma fit_classes_reduction:
  "fit_classes (reduction_events env a x) =
     (case map_of (pca_models (n_runs a)) (model_type a) of
        Some mp \<Rightarrow> replicate (nat (mp_n_runs mp)) (mp_class mp)
      | None \<Rightarrow> [])"
  by (simp add: reduction_events_def fit_classes_runs hmds_events_def fit_class_def
      split: option.splits)

text \<open>
  C1, as amended. When the dimension check passes, the distortion measures are not empty
  and the estimator returns a pair, \<^verbatim>\<open>run\<close> completes and its calls are, in this order:
  the graph and its all-pairs shortest-path matrix; the embedding (pretrained file, or
  root choice and Sarkar construction) and its pairwise distances; the distortion of
  these distances against the graph distances; the Fr\'echet mean of the embedding; the
  reflection of the embedding that takes the mean to the origin; then, for a model type
  that is a key of \<^verbatim>\<open>pca_models\<close>, the runs of that entry's single class on the centered
  points (constructor, \<^verbatim>\<open>fit\<close>, metrics, ball embedding; once for \<^verbatim>\<open>pca\<close> and
  \<^verbatim>\<open>tpca\<close>, \<^verbatim>\<open>n_runs\<close> times for the others) and the aggregation of their metrics,
  and for any other model type the hMDS baseline, which fits no PCA model; last the
  formatting of the metrics.
\<close>

theorem run_stage_order:
  assumes "use_sarkar a \<or> dim' a \<in> {2, 10, 50}"
    and "avg_distortion_measures env (graph_dist_of env (dataset a)) (embedding_dist_of env a) \<noteq> []"
    and "frechet_mean env (1 / 100) (1 / 100000) 5000 (embedding_of env a) = [mu, flag]"
  shows "run env a (init s) =
           (Inr (final_metrics env a (reflect_at_zero env (embedding_of env a) mu) s, config_of a),
            \<lparr>rng = final_rng env a (reflect_at_zero env (embedding_of env a) mu) s,
             trace = loading_events env a @ embedding_events env a
               @ [EvDistortion (graph_dist_of env (dataset a)) (embedding_dist_of env a),
                  EvFrechetMean (1 / 100) (1 / 100000) 5000 (embedding_of env a),
                  EvReflectAtZero (embedding_of env a) mu]
               @ reduction_events env a (reflect_at_zero env (embedding_of env a) mu)
               @ [EvFormatMetrics (metrics_final a)]\<rparr>)
         \<and> fit_classes (trace (snd (run env a (init s)))) =
             (case map_of (pca_models (n_runs a)) (model_type a) of
                Some mp \<Rightarrow> replicate (nat (mp_n_runs mp)) (mp_class mp)
              | None \<Rightarrow> [])"
proof -
  from assms(2) obtain d ds where
    "avg_distortion_measures env (graph_dist_of env (dataset a)) (embedding_dist_of env a) = d # ds"
    by (cases "avg_distortion_measures env (graph_dist_of env (dataset a)) (embedding_dist_of env a)")
      auto
  with assms(1,3) have r: "run env a (init s) =
           (Inr (final_metrics env a (reflect_at_zero env (embedding_of env a) mu) s, config_of a),
            \<lparr>rng = final_rng env a (reflect_at_zero env (embedding_of env a) mu) s,
             trace = loading_events env a @ embedding_events env a
               @ [EvDistortion (graph_dist_of env (dataset a)) (embedding_dist_of env a),
                  EvFrechetMean (1 / 100) (1 / 100000) 5000 (embedding_of env a),
                  EvReflectAtZero (embedding_of env a) mu]
               @ reduction_events env a (reflect_at_zero env (embedding_of env a) mu)
               @ [EvFormatMetrics (metrics_final a)]\<rparr>)"
    by (simp add: run_eq)
  have "fit_classes (loading_events env a) = []"
    by (simp add: loading_events_def fit_class_def)
  moreover have "fit_classes (embedding_events env a) = []"
    by (simp add: embedding_events_def fit_class_def)
  ultimately show ?thesis
    by (simp add: r fit_classes_reduction fit_class_def)
qed

text \<open>
  The default run in the concrete environment: five HoroPCA runs on the centered points,
  each with its own constructor call, then the aggregation of the five metrics.
\<close>

lemma toy_values:
  "load_graph toy_env ''smalltree'' = 9"
  "graph_dist_of toy_env ''smalltree'' = 9"
  "embedding_of toy_env default_args = 10"
  "embedding_dist_of toy_env default_args = 20"
  by (simp_all add: toy_env_def default_args_def graph_dist_of_def embedding_of_def
      embedding_dist_of_def arange_def)


lemma arange9: "arange 9 = [0, 1, 2, 3, 4, 5, 6, 7, 8]"
  by (simp add: arange_def upto.simps)

lemma horopca_entry:
  "map_of (pca_models 5) ''horopca'' =
     Some \<lparr>mp_class = HoroPCA, mp_optim = True, mp_iterative = False, mp_n_runs = 5\<rparr>"
  by (simp add: pca_models_def)

lemma hmds_entry: "map_of (pca_models n) ''hmds'' = None"
  by (simp add: pca_models_def)

theorem run_stage_order_witness:
  "(use_sarkar default_args \<or> dim' default_args \<in> {2, 10, 50})
   \<and> avg_distortion_measures toy_env (graph_dist_of toy_env (dataset default_args))
        (embedding_dist_of toy_env default_args) \<noteq> []
   \<and> frechet_mean toy_env (1 / 100) (1 / 100000) 5000 (embedding_of toy_env default_args) =
        [Tensor 1, PyBool False]
   \<and> run toy_env default_args (init 0) =
       (Inr (65, config_of default_args),
        \<lparr>rng = 10,
         trace =
           [EvLoadGraph ''smalltree'', EvFloydWarshall [0, 1, 2, 3, 4, 5, 6, 7, 8],
            EvLoadEmbeddings ''smalltree'' 10, EvPairwiseDistance 10,
            EvDistortion 9 20, EvFrechetMean (1 / 100) (1 / 100000) 5000 10,
            EvReflectAtZero 10 (Tensor 1)]
           @ concat (replicate 5
               [EvConstruct HoroPCA 10 2 (5 / 100) 500, EvFit HoroPCA 9 False True,
                EvModelMetrics HoroPCA 9, EvMapToBall HoroPCA 9])
           @ [EvAggregate 5, EvFormatMetrics [''distortion'', ''frechet_var'']]\<rparr>)
   \<and> fit_classes (trace (snd (run toy_env default_args (init 0)))) =
       [HoroPCA, HoroPCA, HoroPCA, HoroPCA, HoroPCA]"
proof -
  have h1: "use_sarkar default_args \<or> dim' default_args \<in> {2, 10, 50}"
    by (simp add: default_args_def)
  have h2: "avg_distortion_measures toy_env (graph_dist_of toy_env (dataset default_args))
        (embedding_dist_of toy_env default_args) \<noteq> []"
    by (simp add: toy_env_def)
  have h3: "frechet_mean toy_env (1 / 100) (1 / 100000) 5000 (embedding_of toy_env default_args) =
        [Tensor 1, PyBool False]"
    by (simp add: toy_env_def)
  have x: "reflect_at_zero toy_env 10 (Tensor 1) = 9" "number_of_nodes toy_env 9 = 9"
    by (simp_all add: toy_env_def)
  have e: "model_type default_args = ''horopca''" "n_runs default_args = 5"
    "dataset default_args = ''smalltree''" "dim' default_args = 10"
    "n_components default_args = 2" "lr default_args = 5 / 100"
    "metrics_final default_args = [''distortion'', ''frechet_var'']"
    "\<not> use_sarkar default_args"
    by (simp_all add: default_args_def)
  have fm: "fit_model toy_env \<lparr>mp_class = HoroPCA, mp_optim = True, mp_iterative = False, mp_n_runs = 5\<rparr>
              default_args 9 k = (int k + 9, Suc (Suc k))" for k
    by (simp add: fit_model_def toy_env_def Let_def)
  have ms: "fitted_models toy_env \<lparr>mp_class = HoroPCA, mp_optim = True, mp_iterative = False, mp_n_runs = 5\<rparr>
              default_args 9 5 0 = [9, 11, 13, 15, 17]"
    by (simp add: eval_nat_numeral fm)
  have rg: "rng_after toy_env \<lparr>mp_class = HoroPCA, mp_optim = True, mp_iterative = False, mp_n_runs = 5\<rparr>
              default_args 9 5 0 = 10"
    by (simp add: eval_nat_numeral fm)
  have agg: "model_compute_metrics toy_env m y = m" "aggregate_metrics toy_env l = sum_list l"
    for m y l
    by (simp_all add: toy_env_def)
  from run_stage_order [OF h1 h2 h3, of 0]
  have r: "run toy_env default_args (init 0) =
       (Inr (65, config_of default_args),
        \<lparr>rng = 10,
         trace =
           [EvLoadGraph ''smalltree'', EvFloydWarshall [0, 1, 2, 3, 4, 5, 6, 7, 8],
            EvLoadEmbeddings ''smalltree'' 10, EvPairwiseDistance 10,
            EvDistortion 9 20, EvFrechetMean (1 / 100) (1 / 100000) 5000 10,
            EvReflectAtZero 10 (Tensor 1)]
           @ concat (replicate 5
               [EvConstruct HoroPCA 10 2 (5 / 100) 500, EvFit HoroPCA 9 False True,
                EvModelMetrics HoroPCA 9, EvMapToBall HoroPCA 9])
           @ [EvAggregate 5, EvFormatMetrics [''distortion'', ''frechet_var'']]\<rparr>)"
    by (simp add: e toy_values x horopca_entry final_metrics_def final_rng_def ms rg agg
        reduction_events_def run_events_def loading_events_def embedding_events_def arange9)
  have c: "fit_classes (trace (snd (run toy_env default_args (init 0)))) =
       [HoroPCA, HoroPCA, HoroPCA, HoroPCA, HoroPCA]"
    by (simp add: r fit_class_def eval_nat_numeral)
  from h1 h2 h3 r c show ?thesis
    by blast
qed

text \<open>
  C1 as stated fails: with the model type \<^verbatim>\<open>hmds\<close> (the last entry of
  \<^verbatim>\<open>list_model\<close> in \<^verbatim>\<open>main2.ipynb\<close>) the pipeline completes, and no PCA variant is
  fit on the way.
\<close>

theorem hmds_fits_no_pca_variant:
  "run toy_env (default_args\<lparr>model_type := ''hmds''\<rparr>) (init 0) =
     (Inr (11, config_of (default_args\<lparr>model_type := ''hmds''\<rparr>)),
      \<lparr>rng = 0,
       trace =
         [EvLoadGraph ''smalltree'', EvFloydWarshall [0, 1, 2, 3, 4, 5, 6, 7, 8],
          EvLoadEmbeddings ''smalltree'' 10, EvPairwiseDistance 10,
          EvDistortion 9 20, EvFrechetMean (1 / 100) (1 / 100000) 5000 10,
          EvReflectAtZero 10 (Tensor 1),
          EvFromPoincare 9, EvHyperboloidDistance 9 9, EvPairwiseDistance 9, EvMDS 18 2,
          EvToPoincare 20, EvComputeMetrics 9 20,
          EvFormatMetrics [''distortion'', ''frechet_var'']]\<rparr>)
   \<and> fit_classes (trace (snd (run toy_env (default_args\<lparr>model_type := ''hmds''\<rparr>) (init 0)))) = []"
proof -
  let ?a = "default_args\<lparr>model_type := ''hmds''\<rparr>"
  have e: "model_type ?a = ''hmds''" "n_runs ?a = 5"
    "dataset ?a = ''smalltree''" "dim' ?a = 10"
    "n_components ?a = 2" "lr ?a = 5 / 100"
    "metrics_final ?a = [''distortion'', ''frechet_var'']"
    "\<not> use_sarkar ?a"
    by (simp_all add: default_args_def)
  have v: "graph_dist_of toy_env ''smalltree'' = 9" "embedding_of toy_env ?a = 10"
    "embedding_dist_of toy_env ?a = 20" "load_graph toy_env ''smalltree'' = 9"
    by (simp_all add: toy_env_def default_args_def graph_dist_of_def embedding_of_def
      embedding_dist_of_def arange_def)
  have d: "avg_distortion_measures toy_env 9 20 = [0, 0]"
    "frechet_mean toy_env (1 / 100) (1 / 100000) 5000 10 = [Tensor 1, PyBool False]"
    "reflect_at_zero toy_env 10 (Tensor 1) = 9" "number_of_nodes toy_env 9 = 9"
    by (simp_all add: toy_env_def)
  have h: "hmds_events toy_env ?a 9 =
      [EvFromPoincare 9, EvHyperboloidDistance 9 9, EvPairwiseDistance 9, EvMDS 18 2,
          EvToPoincare 20, EvComputeMetrics 9 20]"
    "compute_metrics toy_env 9 (x_proj_of toy_env ?a 9) = 11"
    by (simp_all add: hmds_events_def x_proj_of_def toy_env_def default_args_def)
  have r: "run toy_env ?a (init 0) =
     (Inr (11, config_of ?a),
      \<lparr>rng = 0,
       trace =
         [EvLoadGraph ''smalltree'', EvFloydWarshall [0, 1, 2, 3, 4, 5, 6, 7, 8],
          EvLoadEmbeddings ''smalltree'' 10, EvPairwiseDistance 10,
          EvDistortion 9 20, EvFrechetMean (1 / 100) (1 / 100000) 5000 10,
          EvReflectAtZero 10 (Tensor 1),
          EvFromPoincare 9, EvHyperboloidDistance 9 9, EvPairwiseDistance 9, EvMDS 18 2,
          EvToPoincare 20, EvComputeMetrics 9 20,
          EvFormatMetrics [''distortion'', ''frechet_var'']]\<rparr>)"
    by (simp add: run_eq e v d h hmds_entry final_metrics_def final_rng_def
        reduction_events_def loading_events_def embedding_events_def arange9)
  show ?thesis
    by (simp add: r fit_class_def)
qed

subsection \<open>The Sarkar path\<close>

text \<open>
  C8. With \<^verbatim>\<open>use_sarkar\<close> true, \<^verbatim>\<open>get_hyperbolic_embeddings\<close> checks nothing: for every
  dimension it picks a root, runs the Sarkar construction with that dimension and returns
  the embedding with its pairwise distances divided by the scale. The AssertionError arises
  exactly when \<^verbatim>\<open>use_sarkar\<close> is false and the dimension is none of 2, 10 and 50.
\<close>

theorem sarkar_path_unchecked:
  "get_hyperbolic_embeddings env graph ds d True scale st =
     (Inr (sarkar env graph scale (pick_root env graph) d,
           div_scalar env
             (pairwise_distance env (sarkar env graph scale (pick_root env graph) d)) scale),
      st\<lparr>trace := trace st @
         [EvPickRoot, EvSarkar scale (pick_root env graph) d,
          EvPairwiseDistance (sarkar env graph scale (pick_root env graph) d)]\<rparr>)
   \<and> (fst (get_hyperbolic_embeddings env graph ds d use_sk scale st) = Inl AssertionError)
       = (\<not> use_sk \<and> d \<notin> {2, 10, 50})"
  by (simp add: get_hyperbolic_embeddings_def ret_def raise_def)

subsection \<open>The Fr\'echet mean at its call site\<close>




subsection \<open>Every outcome of \<^verbatim>\<open>run\<close> of \<^verbatim>\<open>main.ipynb\<close>\<close>

lemma seq_for_range_unbound:
  "seq (for_range (Suc k) (fit_once env mp a x) (None, e)) f st =
     (Inl UnboundLocalError,
      st\<lparr>rng := snd (fit_model env mp a x (rng st)),
         trace := trace st @ [EvConstruct (mp_class mp) (dim' a) (n_components a) (lr a) 500,
                              EvFit (mp_class mp) x (mp_iterative mp) (mp_optim mp)]\<rparr>)"
  by (simp add: seq_def [of "for_range _ _ _"] for_range_unbound del: for_range.simps)

lemma main_run_eq:
  "main_run env x a st =
     (Inl UnboundLocalError,
      (case map_of (pca_models (n_runs a)) (model_type a) of
         Some mp \<Rightarrow>
           if 0 < mp_n_runs mp
           then st\<lparr>rng := snd (fit_model env mp a x (rng st)),
                   trace := trace st @
                     [EvConstruct (mp_class mp) (dim' a) (n_components a) (lr a) 500,
                      EvFit (mp_class mp) x (mp_iterative mp) (mp_optim mp)]\<rparr>
           else st
       | None \<Rightarrow>
           st\<lparr>trace := trace st @
             [EvFromPoincare x,
              EvHyperboloidDistance (unsqueeze env x (- 2)) (unsqueeze env x (- 3)),
              EvPairwiseDistance x,
              EvMDS (pairwise_distance env x) (n_components a),
              EvToPoincare (mds env (pairwise_distance env x) (n_components a))]\<rparr>))"
proof (cases "map_of (pca_models (n_runs a)) (model_type a)")
  case None
  then show ?thesis
    by (simp add: main_run_def reduce_dimension_def seq_assoc raise_def)
next
  case (Some mp)
  show ?thesis
  proof (cases "0 < mp_n_runs mp")
    case True
    then obtain k where k: "nat (mp_n_runs mp) = Suc k"
      by (cases "nat (mp_n_runs mp)") auto
    show ?thesis
      using True
      by (simp add: main_run_def reduce_dimension_def Some seq_assoc k
          seq_for_range_unbound del: for_range.simps)
  next
    case False
    then have "nat (mp_n_runs mp) = 0" by simp
    then show ?thesis
      using False
      by (simp add: main_run_def reduce_dimension_def Some seq_assoc raise_def)
  qed
qed

lemma stochastic_entries:
  "map_of (pca_models n) ''pga'' =
     Some \<lparr>mp_class = PGA, mp_optim = True, mp_iterative = True, mp_n_runs = n\<rparr>"
  "map_of (pca_models n) ''bsa'' =
     Some \<lparr>mp_class = BSA, mp_optim = True, mp_iterative = False, mp_n_runs = n\<rparr>"
  "map_of (pca_models n) ''horopca'' =
     Some \<lparr>mp_class = HoroPCA, mp_optim = True, mp_iterative = False, mp_n_runs = n\<rparr>"
  by (simp_all add: pca_models_def)

subsection \<open>Hyperparameters\<close>

lemma lr_irrelevant [simp]:
  "embedding_of env (a\<lparr>lr := l\<rparr>) = embedding_of env a"
  "embedding_dist_of env (a\<lparr>lr := l\<rparr>) = embedding_dist_of env a"
  "loading_events env (a\<lparr>lr := l\<rparr>) = loading_events env a"
  "embedding_events env (a\<lparr>lr := l\<rparr>) = embedding_events env a"
  by (simp_all add: embedding_of_def embedding_dist_of_def loading_events_def
      embedding_events_def)

lemma map_concat_replicate:
  "map f (concat (replicate k evs)) = concat (replicate k (map f evs))"
  by (induction k) simp_all

lemma concat_map_concat_replicate:
  "concat (map f (concat (replicate k evs))) = concat (replicate k (concat (map f evs)))"
  by (induction k) simp_all

lemma forget_lr_reduction:
  "map forget_lr (reduction_events env (a\<lparr>lr := l\<rparr>) x) = map forget_lr (reduction_events env a x)"
  by (simp add: reduction_events_def map_concat_replicate run_events_def forget_lr_def
      hmds_events_def split: option.splits)

lemma frechet_calls_simps [simp]:
  "frechet_calls [] = []"
  "frechet_calls (e # es) = frechet_params e @ frechet_calls es"
  "frechet_calls (xs @ ys) = frechet_calls xs @ frechet_calls ys"
  by (simp_all add: frechet_calls_def)

lemma constructor_calls_simps [simp]:
  "constructor_calls [] = []"
  "constructor_calls (e # es) = construct_params e @ constructor_calls es"
  "constructor_calls (xs @ ys) = constructor_calls xs @ constructor_calls ys"
  by (simp_all add: constructor_calls_def)

lemma params_simps [simp]:
  "frechet_params (EvDistortion gd zd) = []"
  "frechet_params (EvFrechetMean l1 ep ms z) = [(l1, ep, ms)]"
  "frechet_params (EvReflectAtZero z mu) = []"
  "frechet_params (EvFormatMetrics ns) = []"
  "construct_params (EvDistortion gd zd) = []"
  "construct_params (EvFrechetMean l1 ep ms z) = []"
  "construct_params (EvReflectAtZero z mu) = []"
  "construct_params (EvFormatMetrics ns) = []"
  "forget_lr (EvDistortion gd zd) = EvDistortion gd zd"
  "forget_lr (EvFrechetMean l1 ep ms z) = EvFrechetMean l1 ep ms z"
  "forget_lr (EvReflectAtZero z mu) = EvReflectAtZero z mu"
  "forget_lr (EvFormatMetrics ns) = EvFormatMetrics ns"
  by (simp_all add: frechet_params_def construct_params_def forget_lr_def)

lemma frechet_calls_stages [simp]:
  "frechet_calls (loading_events env a) = []"
  "frechet_calls (embedding_events env a) = []"
  "frechet_calls (reduction_events env a x) = []"
  by (simp_all add: frechet_calls_def loading_events_def embedding_events_def
      reduction_events_def concat_map_concat_replicate run_events_def
      frechet_params_def hmds_events_def split: option.splits)

lemma constructor_calls_stages [simp]:
  "constructor_calls (loading_events env a) = []"
  "constructor_calls (embedding_events env a) = []"
  by (simp_all add: constructor_calls_def loading_events_def embedding_events_def
      construct_params_def)

lemma constructor_calls_reduction:
  "constructor_calls (reduction_events env a x) =
     (case map_of (pca_models (n_runs a)) (model_type a) of
        Some mp \<Rightarrow> replicate (nat (mp_n_runs mp)) (lr a, 500)
      | None \<Rightarrow> [])"
proof -
  have "concat (replicate k [(lr a, 500 :: int)]) = replicate k (lr a, 500)" for k
    by (induction k) simp_all
  then show ?thesis
    by (simp add: constructor_calls_def reduction_events_def concat_map_concat_replicate
        run_events_def construct_params_def hmds_events_def split: option.splits)
qed

text \<open>
  C9. In every run of \<^verbatim>\<open>main2.ipynb\<close>'s \<^verbatim>\<open>run\<close>, whatever its arguments: the Fr\'echet
  estimator, if the run gets that far, is called once, with learning rate 1e-2, tolerance
  1e-5 and 5000 steps; every PCA model is constructed with the learning rate of the
  arguments and 500 steps; and changing the learning rate of the arguments changes nothing
  in the trace but the learning rate given to the model constructors. The cells of
  \<^verbatim>\<open>main.ipynb\<close> up to the centering do not read the learning rate either, and its
  \<^verbatim>\<open>run\<close> constructs its models with 500 steps as well.
\<close>

theorem hyperparameters_fixed:
  "frechet_calls (trace (snd (run env a (init s)))) \<in> {[], [(1 / 100, 1 / 100000, 5000)]}
   \<and> set (constructor_calls (trace (snd (run env a (init s))))) \<subseteq> {(lr a, 500)}
   \<and> map forget_lr (trace (snd (run env (a\<lparr>lr := l\<rparr>) (init s)))) =
       map forget_lr (trace (snd (run env a (init s))))
   \<and> main_cells env (a\<lparr>lr := l\<rparr>) = main_cells env a
   \<and> set (constructor_calls (trace (snd (main_run env x a (init s))))) \<subseteq> {(lr a, 500)}"
proof -
  have 1: "frechet_calls (trace (snd (run env a (init s))))
     \<in> {[], [(1 / 100, 1 / 100000, 5000)]}"
    by (simp add: run_eq split: list.splits)
  have 2: "set (constructor_calls (trace (snd (run env a (init s))))) \<subseteq> {(lr a, 500)}"
    by (auto simp add: run_eq constructor_calls_reduction split: list.splits option.splits
        if_splits)
  have 3: "map forget_lr (trace (snd (run env (a\<lparr>lr := l\<rparr>) (init s)))) =
       map forget_lr (trace (snd (run env a (init s))))"
    by (simp add: run_eq forget_lr_reduction split: list.splits)
  have 4: "main_cells env (a\<lparr>lr := l\<rparr>) = main_cells env a"
    by (simp add: main_cells_def)
  have 5: "set (constructor_calls (trace (snd (main_run env x a (init s))))) \<subseteq> {(lr a, 500)}"
    by (simp add: main_run_eq constructor_calls_def construct_params_def init_def
        split: option.splits)
  from 1 2 3 4 5 show ?thesis by blast
qed

subsection \<open>\<^verbatim>\<open>run\<close> of \<^verbatim>\<open>main.ipynb\<close>\<close>

text \<open>
  In \<^verbatim>\<open>main.ipynb\<close> the local variables \<^verbatim>\<open>metrics\<close> and \<^verbatim>\<open>embeddings\<close> of \<^verbatim>\<open>run\<close>
  are never bound before they are read, so every call ends in UnboundLocalError: after the
  first \<^verbatim>\<open>fit\<close> when the loop runs, at the aggregation when it does not, and at the
  store of the key \<^verbatim>\<open>"hMDS"\<close> on the baseline path.
\<close>

text \<open>
  C5 in \<^verbatim>\<open>main.ipynb\<close>. With the default \<^verbatim>\<open>n_runs = 5\<close>, each of the three stochastic
  variants is fit once, not five times, and the call ends in UnboundLocalError.
\<close>

theorem main_run_stops_after_first_fit:
  "n_runs default_args = 5
   \<and> fst (main_run env x (default_args\<lparr>model_type := ''pga''\<rparr>) (init s)) = Inl UnboundLocalError
   \<and> fit_classes (trace (snd (main_run env x (default_args\<lparr>model_type := ''pga''\<rparr>) (init s)))) = [PGA]
   \<and> fst (main_run env x (default_args\<lparr>model_type := ''bsa''\<rparr>) (init s)) = Inl UnboundLocalError
   \<and> fit_classes (trace (snd (main_run env x (default_args\<lparr>model_type := ''bsa''\<rparr>) (init s)))) = [BSA]
   \<and> fst (main_run env x (default_args\<lparr>model_type := ''horopca''\<rparr>) (init s)) = Inl UnboundLocalError
   \<and> fit_classes (trace (snd (main_run env x (default_args\<lparr>model_type := ''horopca''\<rparr>) (init s)))) = [HoroPCA]"
  by (simp add: main_run_eq stochastic_entries default_args_def init_def fit_class_def)

text \<open>
  C10 in \<^verbatim>\<open>main.ipynb\<close>. The call \<^verbatim>\<open>run()\<close> of the last cell constructs one HoroPCA
  model, fits it and stops at \<^verbatim>\<open>metrics.append\<close>: the loop over the five runs ends in
  its first iteration, no metrics are computed or aggregated and no ball embedding is
  stored.
\<close>

theorem main_run_unbound_metrics:
  "main_run env x default_args st =
     (Inl UnboundLocalError,
      st\<lparr>rng := snd (fit_model env
                  \<lparr>mp_class = HoroPCA, mp_optim = True, mp_iterative = False, mp_n_runs = 5\<rparr>
                  default_args x (rng st)),
         trace := trace st @
           [EvConstruct HoroPCA 10 2 (5 / 100) 500, EvFit HoroPCA x False True]\<rparr>)
   \<and> for_range 5
        (fit_once env \<lparr>mp_class = HoroPCA, mp_optim = True, mp_iterative = False, mp_n_runs = 5\<rparr>
           default_args x) (None, None) st =
     (Inl UnboundLocalError,
      st\<lparr>rng := snd (fit_model env
                  \<lparr>mp_class = HoroPCA, mp_optim = True, mp_iterative = False, mp_n_runs = 5\<rparr>
                  default_args x (rng st)),
         trace := trace st @
           [EvConstruct HoroPCA 10 2 (5 / 100) 500, EvFit HoroPCA x False True]\<rparr>)"
proof -
  have e: "model_type default_args = ''horopca''" "n_runs default_args = 5"
    "dim' default_args = 10" "n_components default_args = 2" "lr default_args = 5 / 100"
    by (simp_all add: default_args_def)
  have 5: "Suc 4 = 5" by simp
  note fr = for_range_unbound [of 4 env _ default_args x None st, unfolded 5]
  show ?thesis
    by (simp add: main_run_eq e stochastic_entries fr del: for_range.simps)
qed

text \<open>The whole notebook, from the first cell to the call of \<^verbatim>\<open>run\<close>.\<close>

lemma main_notebook_eq:
  "main_notebook env g a (init s) =
     (if \<not> (use_sarkar g \<or> dim' g \<in> {2, 10, 50})
      then (Inl AssertionError, \<lparr>rng = s, trace = loading_events env g\<rparr>)
      else
        (case avg_distortion_measures env (graph_dist_of env (dataset g)) (embedding_dist_of env g) of
           [] \<Rightarrow>
             (Inl IndexError,
              \<lparr>rng = s,
               trace = loading_events env g @ embedding_events env g
                 @ [EvDistortion (graph_dist_of env (dataset g)) (embedding_dist_of env g)]\<rparr>)
         | d # ds \<Rightarrow>
             (case frechet_mean env (1 / 100) (1 / 100000) 5000 (embedding_of env g) of
                [mu, flag] \<Rightarrow>
                  main_run env (reflect_at_zero env (embedding_of env g) mu) a
                    \<lparr>rng = s,
                     trace = loading_events env g @ embedding_events env g
                       @ [EvDistortion (graph_dist_of env (dataset g)) (embedding_dist_of env g),
                          EvFrechetMean (1 / 100) (1 / 100000) 5000 (embedding_of env g),
                          EvReflectAtZero (embedding_of env g) mu,
                          EvPairwiseDistance (reflect_at_zero env (embedding_of env g) mu)]\<rparr>
              | _ \<Rightarrow>
                  (Inl ValueError,
                   \<lparr>rng = s,
                    trace = loading_events env g @ embedding_events env g
                      @ [EvDistortion (graph_dist_of env (dataset g)) (embedding_dist_of env g),
                         EvFrechetMean (1 / 100) (1 / 100000) 5000 (embedding_of env g)]\<rparr>))))"
  by (simp add: main_notebook_def main_cells_def seq_assoc seq_get_hyperbolic_embeddings
      seq_compute_distortion seq_center_data init_def loading_events_def graph_dist_of_def
      split: list.splits)

lemma main_notebook_toy:
  "main_notebook toy_env main_globals default_args (init 0) =
     (Inl UnboundLocalError,
      \<lparr>rng = 2,
       trace =
         [EvLoadGraph ''ca-CSphd'', EvFloydWarshall [0, 1, 2, 3, 4, 5, 6, 7],
          EvLoadEmbeddings ''ca-CSphd'' 10, EvPairwiseDistance 10,
          EvDistortion 8 20, EvFrechetMean (1 / 100) (1 / 100000) 5000 10,
          EvReflectAtZero 10 (Tensor 1), EvPairwiseDistance 9,
          EvConstruct HoroPCA 10 2 (5 / 100) 500, EvFit HoroPCA 9 False True]\<rparr>)"
  by (simp add: main_notebook_eq main_run_eq stochastic_entries)
     (simp add: toy_env_def main_globals_def default_args_def embedding_of_def
        embedding_dist_of_def graph_dist_of_def loading_events_def embedding_events_def
        arange_def upto.simps fit_model_def main_run_eq stochastic_entries)

text \<open>
  In \<^verbatim>\<open>main2.ipynb\<close>, where both variables are bound before the loop, the loop does what
  C5 and C10 describe: the models of all runs are fitted one after the other, each from a
  new constructor call, their metrics are appended in order and aggregated, and
  \<^verbatim>\<open>embeddings\<close> ends as the ball embedding of the last run.
\<close>

lemma run_accumulates_keeps_last:
  assumes "map_of (pca_models (n_runs a)) (model_type a) = Some mp"
  shows "reduce_dimension env x a (Some [], Some (EmbDict Map.empty)) st =
     (Inr (aggregate_metrics env
             (map (\<lambda>m. model_compute_metrics env m x)
                (fitted_models env mp a x (nat (mp_n_runs mp)) (rng st))),
           Some (if nat (mp_n_runs mp) = 0 then EmbDict Map.empty
                 else EmbArray (map_to_ball env
                        (last (fitted_models env mp a x (nat (mp_n_runs mp)) (rng st))) x))),
      st\<lparr>rng := rng_after env mp a x (nat (mp_n_runs mp)) (rng st),
         trace := trace st @ concat (replicate (nat (mp_n_runs mp)) (run_events mp a x))
           @ [EvAggregate (nat (mp_n_runs mp))]\<rparr>)"
  using assms seq_reduce_dimension_bound [of env x a ret st]
  by (simp add: seq_def [of _ ret] ret_def final_metrics_def final_embeddings_def final_rng_def
      reduction_events_def split: prod.splits sum.splits)

end
